theory Spec2Isabelle
  imports Complex_Main "HOL-Library.Word"
begin

section \<open>JavaScript values used by the component\<close>

text \<open>
  A JavaScript string is a sequence of UTF-16 code units. \<open>str\<close> embeds an ASCII
  literal of the source.
\<close>

type_synonym js_string = "16 word list"

definition str :: "string \<Rightarrow> js_string" where
  "str cs = map (\<lambda>c. word_of_nat (of_char c)) cs"

text \<open>
  \<open>String.prototype.trim\<close> strips the code units of the ECMAScript productions
  WhiteSpace and LineTerminator from both ends.
\<close>

definition isWhiteSpace :: "16 word \<Rightarrow> bool" where
  "isWhiteSpace c \<longleftrightarrow>
     c = 0x0009 \<or> c = 0x000A \<or> c = 0x000B \<or> c = 0x000C \<or> c = 0x000D \<or>
     c = 0x0020 \<or> c = 0x00A0 \<or> c = 0x1680 \<or> (0x2000 \<le> c \<and> c \<le> 0x200A) \<or>
     c = 0x2028 \<or> c = 0x2029 \<or> c = 0x202F \<or> c = 0x205F \<or> c = 0x3000 \<or>
     c = 0xFEFF"

definition trim :: "js_string \<Rightarrow> js_string" where
  "trim s = rev (dropWhile isWhiteSpace (rev (dropWhile isWhiteSpace s)))"

text \<open>\<open>s.split(sep)\<close> for a separator of one code unit, and \<open>xs[i]\<close> with
  \<open>None\<close> for \<open>undefined\<close>.\<close>

fun js_split :: "16 word \<Rightarrow> js_string \<Rightarrow> js_string list" where
  "js_split sep [] = [[]]"
| "js_split sep (c # cs) =
     (if c = sep then [] # js_split sep cs
      else (case js_split sep cs of
              [] \<Rightarrow> [[c]]
            | p # ps \<Rightarrow> (c # p) # ps))"

fun at_index :: "'a list \<Rightarrow> nat \<Rightarrow> 'a option" where
  "at_index [] i = None"
| "at_index (x # xs) 0 = Some x"
| "at_index (x # xs) (Suc i) = at_index xs i"

text \<open>
  A value that is thrown or that rejects a promise: an \<open>Error\<close> object with its
  \<open>name\<close> and \<open>message\<close>, or anything that is not an \<open>Error\<close> (the
  \<open>FileReader\<close> rejects with its progress event).
\<close>

datatype js_thrown = JsError js_string js_string | JsOther

section \<open>Data model\<close>

record VideoSearchResult =
  result_id :: js_string
  url :: js_string
  thumbnailUrl :: "js_string option"
  title :: "js_string option"
  duration :: "rat option"
  startTime :: "rat option"
  endTime :: "rat option"
  score :: rat
  matchType :: "js_string option"
  description :: "js_string option"
  transcript :: "js_string option"
  createdAt :: js_string

record pagination =
  p_currentPage :: int
  p_totalPages :: int
  p_totalResults :: int
  p_hasMore :: bool

record SearchResponse =
  data_results :: "VideoSearchResult list"
  data_pagination :: pagination

datatype query_type = QText | QBase64

text \<open>The \<open>value\<close> of a query is \<open>None\<close> where the JavaScript value is
  \<open>undefined\<close> (see \<open>fileToBase64\<close>).\<close>

record SearchQuery =
  q_type :: query_type
  q_value :: "js_string option"
  embedding_model :: js_string

record searchPayload =
  queries :: "SearchQuery list"
  page :: int
  page_size :: int

text \<open>
  A browser \<open>File\<close>: its name, its declared media type, and what a \<open>FileReader\<close>
  produces for it with \<open>readAsDataURL\<close> (\<open>Inl\<close>: the reader fires \<open>onerror\<close>).
\<close>

record File =
  file_name :: js_string
  file_type :: js_string
  readAsDataURL :: "js_thrown + js_string"

record base64Content =
  b64_file :: File
  base64 :: "js_string option"

text \<open>The part of a video element the handlers read and write.\<close>

record HTMLVideoElement =
  paused :: bool
  currentTime :: rat

datatype section_key = Description | Transcript

record sections =
  sec_description :: bool
  sec_transcript :: bool

text \<open>
  The state of the component: one field per \<open>useState\<close> slot, the \<open>videoRefs\<close>
  ref, and the console the handlers log to.
\<close>

record state =
  searchTerm :: js_string
  hasSearched :: bool
  results :: "VideoSearchResult list"
  loading :: bool
  error :: js_string
  activeVideoId :: "js_string option"
  isPlaying :: "js_string \<rightharpoonup> bool"
  videoRefs :: "js_string \<rightharpoonup> HTMLVideoElement"
  expandedSections :: "js_string \<rightharpoonup> sections"
  selectedFiles :: "File list"
  base64Contents :: "base64Content list"
  currentPage :: int
  totalPages :: int
  totalResults :: int
  lastSearchQueries :: "SearchQuery list"
  console :: "(js_string \<times> js_thrown) list"

definition pageSize :: int where
  "pageSize = 10"

definition init :: state where
  "init = \<lparr> searchTerm = [], hasSearched = False, results = [], loading = False,
            error = [], activeVideoId = None, isPlaying = Map.empty,
            videoRefs = Map.empty, expandedSections = Map.empty,
            selectedFiles = [], base64Contents = [],
            currentPage = 1, totalPages = 0, totalResults = 0,
            lastSearchQueries = [], console = [] \<rparr>"

section \<open>Disclosure state: \<open>toggleSection\<close>\<close>

fun section_flag :: "section_key \<Rightarrow> sections \<Rightarrow> bool" where
  "section_flag Description e = sec_description e"
| "section_flag Transcript e = sec_transcript e"

fun set_section :: "section_key \<Rightarrow> bool \<Rightarrow> sections \<Rightarrow> sections" where
  "set_section Description b e = e\<lparr>sec_description := b\<rparr>"
| "set_section Transcript b e = e\<lparr>sec_transcript := b\<rparr>"

text \<open>\<open>prev[resultId]?.[section] ?? false\<close>: the flag as the component reads it.\<close>

definition expanded :: "(js_string \<rightharpoonup> sections) \<Rightarrow> js_string \<Rightarrow> section_key \<Rightarrow> bool" where
  "expanded prev resultId sec =
     (case prev resultId of None \<Rightarrow> False | Some e \<Rightarrow> section_flag sec e)"

text \<open>The updater that \<open>toggleSection\<close> passes to \<open>setExpandedSections\<close>.\<close>

definition toggle ::
  "(js_string \<rightharpoonup> sections) \<Rightarrow> js_string \<Rightarrow> section_key \<Rightarrow> (js_string \<rightharpoonup> sections)" where
  "toggle prev resultId sec =
     prev(resultId \<mapsto>
       set_section sec (\<not> expanded prev resultId sec)
         (case prev resultId of
            None \<Rightarrow> \<lparr>sec_description = False, sec_transcript = False\<rparr>
          | Some e \<Rightarrow> e))"

definition toggleSection :: "state \<Rightarrow> js_string \<Rightarrow> section_key \<Rightarrow> state" where
  "toggleSection s resultId sec =
     s\<lparr>expandedSections := toggle (expandedSections s) resultId sec\<rparr>"

section \<open>Uploads: \<open>fileToBase64\<close>, \<open>handleFileSelect\<close>, \<open>removeImage\<close>\<close>

text \<open>
  \<open>fileToBase64\<close> resolves with \<open>reader.result.split(",")[1]\<close>, which is
  \<open>undefined\<close> for a data URL without a comma, and rejects with what \<open>onerror\<close>
  receives.
\<close>

definition fileToBase64 :: "File \<Rightarrow> js_thrown + js_string option" where
  "fileToBase64 f =
     (case readAsDataURL f of
        Inl err \<Rightarrow> Inl err
      | Inr base64String \<Rightarrow> Inr (at_index (js_split 0x2C base64String) 1))"

definition validImageTypes :: "js_string list" where
  "validImageTypes = [str ''image/jpeg'', str ''image/png'', str ''image/jpg'']"

text \<open>
  \<open>Promise.all\<close>: the results in the order of the inputs, or a rejection. Of several
  rejections the one that settles first wins in the browser; the model takes the first
  in list order, and only the console entry could tell the difference.
\<close>

fun promise_all :: "(js_thrown + 'a) list \<Rightarrow> js_thrown + 'a list" where
  "promise_all [] = Inr []"
| "promise_all (Inl err # ps) = Inl err"
| "promise_all (Inr x # ps) =
     (case promise_all ps of Inl err \<Rightarrow> Inl err | Inr xs \<Rightarrow> Inr (x # xs))"

text \<open>
  \<open>handleFileSelect\<close> awaits the conversions and then appends to both lists with
  updaters (\<open>prev => [...prev, ...]\<close>), so the two appends act on the state at the
  time the conversions are done; the function below is that run of the handler.
\<close>

definition handleFileSelect :: "state \<Rightarrow> File list \<Rightarrow> state" where
  "handleFileSelect s files =
     (if length files = 0 then s
      else
        let validFiles = filter (\<lambda>f. file_type f \<in> set validImageTypes) files;
            s1 = (if length validFiles \<noteq> length files
                  then s\<lparr>error :=
                    str ''Some files were skipped. Please upload only JPG or PNG files''\<rparr>
                  else s)
        in case promise_all
                  (map (\<lambda>f. case fileToBase64 f of
                               Inl err \<Rightarrow> Inl err
                             | Inr b \<Rightarrow> Inr \<lparr>b64_file = f, base64 = b\<rparr>) validFiles) of
             Inr newBase64Contents \<Rightarrow>
               s1\<lparr>selectedFiles := selectedFiles s1 @ validFiles,
                  base64Contents := base64Contents s1 @ newBase64Contents\<rparr>
           | Inl err \<Rightarrow>
               s1\<lparr>error := str ''Failed to process one or more files'',
                  console := console s1 @ [(str ''File processing error:'', err)]\<rparr>)"

text \<open>\<open>prev.filter((_, i) => i !== index)\<close>; the index is any integer, in range or not.\<close>

definition filter_not_index :: "int \<Rightarrow> 'a list \<Rightarrow> 'a list" where
  "filter_not_index i xs = map snd (filter (\<lambda>(j, x). int j \<noteq> i) (enumerate 0 xs))"

definition removeImage :: "state \<Rightarrow> int \<Rightarrow> state" where
  "removeImage s i =
     s\<lparr>selectedFiles := filter_not_index i (selectedFiles s),
       base64Contents := filter_not_index i (base64Contents s)\<rparr>"

text \<open>The click handler of the "Remove All" button.\<close>

definition removeAll :: "state \<Rightarrow> state" where
  "removeAll s = s\<lparr>selectedFiles := [], base64Contents := []\<rparr>"

text \<open>The \<open>onChange\<close> handler of the text input.\<close>

definition setSearchTerm :: "state \<Rightarrow> js_string \<Rightarrow> state" where
  "setSearchTerm s v = s\<lparr>searchTerm := v\<rparr>"

section \<open>Search: \<open>handleSearch\<close>\<close>

text \<open>
  What \<open>fetch\<close> and the reads of the response body give: the \<open>fetch\<close> promise
  rejects; or the response is not ok, with the outcome of \<open>response.text()\<close>; or it is
  ok, with the outcome of \<open>response.json()\<close>.
\<close>

datatype fetch_result =
    FetchRejected js_thrown
  | RespNotOk "js_thrown + js_string"
  | RespOk "js_thrown + SearchResponse"

text \<open>The query list that \<open>handleSearch\<close> builds inside its \<open>try\<close> block.\<close>

definition build_queries :: "js_string \<Rightarrow> base64Content list \<Rightarrow> SearchQuery list" where
  "build_queries input contents =
     (if trim input \<noteq> []
      then [\<lparr>q_type = QText, q_value = Some input, embedding_model = str ''multimodal''\<rparr>]
      else [])
     @ map (\<lambda>c. \<lparr>q_type = QBase64, q_value = base64 c,
                  embedding_model = str ''multimodal''\<rparr>) contents"

text \<open>
  \<open>handleSearch\<close> up to \<open>await fetch\<close>: the new state and the payload of the request,
  or \<open>None\<close> when no request is sent.
\<close>

definition handleSearch_begin :: "state \<Rightarrow> int \<Rightarrow> state \<times> searchPayload option" where
  "handleSearch_begin s pg =
     (if trim (searchTerm s) = [] \<and> length (base64Contents s) = 0
      then (s\<lparr>error := str ''Please enter a search term or upload files''\<rparr>, None)
      else
        let qs = build_queries (searchTerm s) (base64Contents s)
        in (s\<lparr>loading := True, error := [], hasSearched := True,
              lastSearchQueries := qs\<rparr>,
            Some \<lparr>queries = qs, page = pg, page_size = pageSize\<rparr>))"

text \<open>Every element of \<open>videoRefs\<close> that is not paused is paused.\<close>

definition pause_all :: "(js_string \<rightharpoonup> HTMLVideoElement) \<Rightarrow> (js_string \<rightharpoonup> HTMLVideoElement)" where
  "pause_all refs = (\<lambda>k. map_option (\<lambda>video. video\<lparr>paused := True\<rparr>) (refs k))"

text \<open>The \<open>catch\<close> and \<open>finally\<close> blocks of \<open>handleSearch\<close>.\<close>

definition handleSearch_catch :: "state \<Rightarrow> js_thrown \<Rightarrow> state" where
  "handleSearch_catch s err =
     s\<lparr>console := console s @ [(str ''Search error:'', err)],
       error := str ''An unexpected error occurred while searching'',
       results := [], currentPage := 1, totalPages := 0, totalResults := 0,
       loading := False\<rparr>"

text \<open>\<open>handleSearch\<close> from the point where \<open>fetch\<close> settles.\<close>

definition handleSearch_complete :: "state \<Rightarrow> fetch_result \<Rightarrow> state" where
  "handleSearch_complete s r =
     (case r of
        FetchRejected err \<Rightarrow> handleSearch_catch s err
      | RespNotOk (Inl err) \<Rightarrow> handleSearch_catch s err
      | RespNotOk (Inr body) \<Rightarrow> handleSearch_catch s (JsError (str ''Error'') body)
      | RespOk (Inl err) \<Rightarrow> handleSearch_catch s err
      | RespOk (Inr d) \<Rightarrow>
          s\<lparr>videoRefs := pause_all (videoRefs s),
            activeVideoId := None,
            isPlaying := Map.empty,
            results := data_results d,
            currentPage := p_currentPage (data_pagination d),
            totalPages := p_totalPages (data_pagination d),
            totalResults := p_totalResults (data_pagination d),
            error := (if length (data_results d) = 0
                      then str ''No results found. Try adjusting your search.''
                      else []),
            loading := False\<rparr>)"

section \<open>Pagination: \<open>handlePageChange\<close>\<close>

definition handlePageChange_begin :: "state \<Rightarrow> int \<Rightarrow> state \<times> searchPayload option" where
  "handlePageChange_begin s newPage =
     (if newPage < 1 \<or> newPage > totalPages s \<or> loading s then (s, None)
      else (s\<lparr>loading := True\<rparr>,
            Some \<lparr>queries = lastSearchQueries s, page = newPage, page_size = pageSize\<rparr>))"

definition handlePageChange_catch :: "state \<Rightarrow> js_thrown \<Rightarrow> state" where
  "handlePageChange_catch s err =
     s\<lparr>error := str ''An error occurred while fetching more results'',
       console := console s @ [(str ''Pagination error:'', err)],
       loading := False\<rparr>"

definition handlePageChange_complete :: "state \<Rightarrow> fetch_result \<Rightarrow> state" where
  "handlePageChange_complete s r =
     (case r of
        FetchRejected err \<Rightarrow> handlePageChange_catch s err
      | RespNotOk (Inl err) \<Rightarrow> handlePageChange_catch s err
      | RespNotOk (Inr body) \<Rightarrow> handlePageChange_catch s (JsError (str ''Error'') body)
      | RespOk (Inl err) \<Rightarrow> handlePageChange_catch s err
      | RespOk (Inr d) \<Rightarrow>
          s\<lparr>videoRefs := pause_all (videoRefs s),
            activeVideoId := None,
            isPlaying := Map.empty,
            results := data_results d,
            currentPage := p_currentPage (data_pagination d),
            totalPages := p_totalPages (data_pagination d),
            totalResults := p_totalResults (data_pagination d),
            loading := False\<rparr>)"

section \<open>Playback: \<open>handleVideoClick\<close>, \<open>handlePlay\<close>, \<open>handlePause\<close>\<close>

text \<open>
  The \<open>ref\<close> callback of a rendered \<open>video\<close> element: a non-null element is
  stored under the id of its result, and entries are never removed.
\<close>

definition attachRef :: "state \<Rightarrow> js_string \<Rightarrow> HTMLVideoElement option \<Rightarrow> state" where
  "attachRef s resultId el =
     (case el of
        None \<Rightarrow> s
      | Some video \<Rightarrow> s\<lparr>videoRefs := (videoRefs s)(resultId \<mapsto> video)\<rparr>)"

text \<open>How the promise of \<open>video.play()\<close> settles.\<close>

datatype play_outcome = Resolved | Rejected js_thrown

text \<open>The \<open>catch\<close> block of \<open>handleVideoClick\<close>.\<close>

definition handleVideoClick_catch :: "state \<Rightarrow> js_string \<Rightarrow> js_thrown \<Rightarrow> state" where
  "handleVideoClick_catch s resultId err =
     (let s1 = (case err of
                  JsError nm msg \<Rightarrow>
                    if nm \<noteq> str ''AbortError''
                    then s\<lparr>console := console s @ [(str ''Video playback error:'', err)]\<rparr>
                    else s
                | JsOther \<Rightarrow> s)
      in s1\<lparr>isPlaying := (isPlaying s1)(resultId \<mapsto> False)\<rparr>)"

text \<open>
  \<open>activeVideoId && videoRefs.current[activeVideoId]\<close>: the previously active
  element is paused and flagged not playing. The empty string is falsy, so an active
  id \<open>""\<close> is skipped.
\<close>

definition pause_previous :: "state \<Rightarrow> state" where
  "pause_previous s =
     (case activeVideoId s of
        None \<Rightarrow> s
      | Some a \<Rightarrow>
          (if a = [] then s
           else (case videoRefs s a of
                   None \<Rightarrow> s
                 | Some prev \<Rightarrow>
                     s\<lparr>videoRefs := (videoRefs s)(a \<mapsto> prev\<lparr>paused := True\<rparr>),
                       isPlaying := (isPlaying s)(a \<mapsto> False)\<rparr>)))"

text \<open>
  \<open>handleVideoClick\<close> suspends once, at \<open>await video.play()\<close>. The part before
  that point returns the branch that is waiting, or \<open>None\<close> when the handler has
  returned without a call of \<open>play()\<close>. A call of \<open>play()\<close> makes the element not
  paused at once, as on the normal path of the HTML standard, and its promise settles
  later.
\<close>

datatype click_branch = Resume | Switch

definition handleVideoClick_begin ::
  "state \<Rightarrow> js_string \<Rightarrow> VideoSearchResult \<Rightarrow> state \<times> click_branch option" where
  "handleVideoClick_begin s resultId result =
     (case videoRefs s resultId of
        None \<Rightarrow> (s, None)
      | Some video \<Rightarrow>
          if activeVideoId s = Some resultId then
            (if paused video then
               (s\<lparr>videoRefs := (videoRefs s)(resultId \<mapsto> video\<lparr>paused := False\<rparr>)\<rparr>,
                Some Resume)
             else
               (s\<lparr>videoRefs := (videoRefs s)(resultId \<mapsto> video\<lparr>paused := True\<rparr>),
                  isPlaying := (isPlaying s)(resultId \<mapsto> False)\<rparr>, None))
          else
            (let s1 = pause_previous s;
                 video1 = video\<lparr>currentTime :=
                            (case startTime result of None \<Rightarrow> 0 | Some t \<Rightarrow> t),
                          paused := False\<rparr>
             in (s1\<lparr>videoRefs := (videoRefs s1)(resultId \<mapsto> video1)\<rparr>, Some Switch)))"

text \<open>
  The part from the point where the promise of \<open>play()\<close> settles: the state setters
  after the \<open>await\<close> of the branch that was waiting, or the \<open>catch\<close> block.
\<close>

definition handleVideoClick_settle ::
  "state \<Rightarrow> js_string \<Rightarrow> click_branch \<Rightarrow> play_outcome \<Rightarrow> state" where
  "handleVideoClick_settle s resultId branch outcome =
     (case outcome of
        Rejected err \<Rightarrow> handleVideoClick_catch s resultId err
      | Resolved \<Rightarrow>
          (case branch of
             Resume \<Rightarrow> s\<lparr>isPlaying := (isPlaying s)(resultId \<mapsto> True)\<rparr>
           | Switch \<Rightarrow>
               s\<lparr>activeVideoId := Some resultId,
                 isPlaying := (isPlaying s)(resultId \<mapsto> True)\<rparr>))"

text \<open>The \<open>onPlay\<close> and \<open>onPause\<close> handlers of a video element.\<close>

definition handlePlay :: "state \<Rightarrow> js_string \<Rightarrow> state" where
  "handlePlay s resultId = s\<lparr>isPlaying := (isPlaying s)(resultId \<mapsto> True)\<rparr>"

definition handlePause :: "state \<Rightarrow> js_string \<Rightarrow> state" where
  "handlePause s resultId = s\<lparr>isPlaying := (isPlaying s)(resultId \<mapsto> False)\<rparr>"

section \<open>The component as a transition system\<close>

text \<open>
  One event per uninterrupted run of a handler. A search, a page change and a click
  are two events each: the part up to the \<open>await\<close>, and the part from the point
  where the awaited promise settles, so that other events can come between the two.
  \<open>step\<close> applies the second part whenever it is given one; which second parts can
  occur in a run is the matter of \<open>admissible\<close> below.
\<close>

datatype event =
    SetSearchTerm js_string
  | FileSelect "File list"
  | RemoveImage int
  | RemoveAll
  | Search int
  | SearchDone fetch_result
  | GoToPage int
  | PageDone fetch_result
  | AttachRef js_string "HTMLVideoElement option"
  | VideoClick js_string VideoSearchResult
  | PlaySettled js_string click_branch play_outcome
  | MediaPlay js_string
  | MediaPause js_string
  | ToggleSection js_string section_key

fun step :: "state \<Rightarrow> event \<Rightarrow> state" where
  "step s (SetSearchTerm v) = setSearchTerm s v"
| "step s (FileSelect files) = handleFileSelect s files"
| "step s (RemoveImage i) = removeImage s i"
| "step s RemoveAll = removeAll s"
| "step s (Search pg) = fst (handleSearch_begin s pg)"
| "step s (SearchDone r) = handleSearch_complete s r"
| "step s (GoToPage newPage) = fst (handlePageChange_begin s newPage)"
| "step s (PageDone r) = handlePageChange_complete s r"
| "step s (AttachRef resultId el) = attachRef s resultId el"
| "step s (VideoClick resultId result) = fst (handleVideoClick_begin s resultId result)"
| "step s (PlaySettled resultId branch outcome) =
     handleVideoClick_settle s resultId branch outcome"
| "step s (MediaPlay resultId) = handlePlay s resultId"
| "step s (MediaPause resultId) = handlePause s resultId"
| "step s (ToggleSection resultId sec) = toggleSection s resultId sec"

definition run :: "state \<Rightarrow> event list \<Rightarrow> state" where
  "run s es = foldl step s es"

text \<open>The events that start a new search.\<close>

fun is_Search :: "event \<Rightarrow> bool" where
  "is_Search (Search pg) = True"
| "is_Search e = False"

text \<open>
  The click that is waiting for its \<open>play()\<close> promise, if any: the id, the branch,
  and whether a successful search or page change has paused every element since the
  call (\<open>pause()\<close> rejects the pending promises of \<open>play()\<close>).
\<close>

type_synonym pending = "(js_string \<times> click_branch \<times> bool) option"

definition waiting :: "pending \<Rightarrow> js_string option" where
  "waiting p = map_option fst p"

fun pending_after :: "state \<Rightarrow> pending \<Rightarrow> event \<Rightarrow> pending" where
  "pending_after s p (VideoClick resultId result) =
     (case snd (handleVideoClick_begin s resultId result) of
        None \<Rightarrow> p
      | Some branch \<Rightarrow> Some (resultId, branch, False))"
| "pending_after s p (PlaySettled resultId branch outcome) = None"
| "pending_after s p (SearchDone (RespOk (Inr d))) =
     map_option (\<lambda>(k, branch, paused_since). (k, branch, True)) p"
| "pending_after s p (PageDone (RespOk (Inr d))) =
     map_option (\<lambda>(k, branch, paused_since). (k, branch, True)) p"
| "pending_after s p e = p"

text \<open>
  The runs the playback invariant is stated for. A click is on a result with a
  non-empty id and starts only when no click is waiting. A \<open>play()\<close> promise that
  settles is the one that is waiting, and it does not resolve after its element has
  been paused. A media \<open>play\<close> event is for the result whose click is waiting (the
  event that its own \<open>play()\<close> call fires) or, when no click is waiting, for the
  active result. All other events, media \<open>pause\<close> events and completions of searches
  and page changes among them, can occur at any point.
\<close>

fun admissible :: "state \<Rightarrow> pending \<Rightarrow> event \<Rightarrow> bool" where
  "admissible s p (VideoClick resultId result) = (resultId \<noteq> [] \<and> p = None)"
| "admissible s p (PlaySettled resultId branch outcome) =
     (case p of
        None \<Rightarrow> False
      | Some (k, b, paused_since) \<Rightarrow>
          k = resultId \<and> b = branch \<and> \<not> (paused_since \<and> outcome = Resolved))"
| "admissible s p (MediaPlay resultId) =
     (case p of
        None \<Rightarrow> activeVideoId s = Some resultId
      | Some (k, b, paused_since) \<Rightarrow> k = resultId)"
| "admissible s p e = True"

fun admissible_run :: "state \<Rightarrow> pending \<Rightarrow> event list \<Rightarrow> bool" where
  "admissible_run s p [] = True"
| "admissible_run s p (e # es) =
     (admissible s p e \<and> admissible_run (step s e) (pending_after s p e) es)"

fun pending_run :: "state \<Rightarrow> pending \<Rightarrow> event list \<Rightarrow> pending" where
  "pending_run s p [] = p"
| "pending_run s p (e # es) = pending_run (step s e) (pending_after s p e) es"

section \<open>Concrete inputs\<close>

definition video_result :: "string \<Rightarrow> VideoSearchResult" where
  "video_result name =
     \<lparr> result_id = str name, url = str ''/v.mp4'', thumbnailUrl = None, title = None,
       duration = None, startTime = Some 5, endTime = None, score = 1 / 2,
       matchType = None, description = None, transcript = None,
       createdAt = str ''2024-01-01'' \<rparr>"

definition three_pages :: "int \<Rightarrow> SearchResponse" where
  "three_pages n =
     \<lparr> data_results = [video_result ''A'', video_result ''B''],
       data_pagination = \<lparr> p_currentPage = n, p_totalPages = 3, p_totalResults = 25,
                            p_hasMore = True \<rparr> \<rparr>"

definition fresh_video :: HTMLVideoElement where
  "fresh_video = \<lparr> paused = True, currentTime = 0 \<rparr>"

definition png_file :: File where
  "png_file = \<lparr> file_name = str ''a.png'', file_type = str ''image/png'',
                 readAsDataURL = Inr (str ''data:image/png;base64,QUJD'') \<rparr>"

definition jpg_file :: File where
  "jpg_file = \<lparr> file_name = str ''b.jpg'', file_type = str ''image/jpeg'',
                 readAsDataURL = Inr (str ''data:image/jpeg;base64,REVG'') \<rparr>"

definition typed_cat :: state where
  "typed_cat = setSearchTerm init (str ''cat'')"

definition padded_cat :: state where
  "padded_cat = setSearchTerm init (str '' cat'')"

text \<open>A search for "cat" that succeeds, then a page change that the server refuses.\<close>

definition failed_page_trace :: "event list" where
  "failed_page_trace =
     [SetSearchTerm (str ''cat''), Search 1, SearchDone (RespOk (Inr (three_pages 1))),
      GoToPage 2, PageDone (RespNotOk (Inr (str ''busy'')))]"

text \<open>
  A click on result A in the order of the browser: the handler calls \<open>play()\<close>, the
  element fires \<open>play\<close>, the promise resolves.
\<close>

definition click_A :: "event list" where
  "click_A =
     [AttachRef (str ''A'') (Some fresh_video), AttachRef (str ''B'') (Some fresh_video),
      VideoClick (str ''A'') (video_result ''A''), MediaPlay (str ''A''),
      PlaySettled (str ''A'') Switch Resolved]"


text \<open>
  Then instead B is clicked: the handler pauses A and calls \<open>play()\<close> on B, the
  element of A fires \<open>pause\<close> and that of B fires \<open>play\<close>.
\<close>

definition switching_trace :: "event list" where
  "switching_trace =
     click_A @ [VideoClick (str ''B'') (video_result ''B''), MediaPause (str ''A''),
                MediaPlay (str ''B'')]"


text \<open>
  Between the call of \<open>play()\<close> on B and its resolution, the element of A, still the
  active result, fires \<open>play\<close> without a click.
\<close>

definition stale_play_trace :: "event list" where
  "stale_play_trace =
     click_A @ [VideoClick (str ''B'') (video_result ''B''), MediaPlay (str ''A''),
                PlaySettled (str ''B'') Switch Resolved]"

text \<open>
  A result whose id is the empty string is clicked and plays; then B is clicked and
  plays.
\<close>

definition empty_id_trace :: "event list" where
  "empty_id_trace =
     [AttachRef [] (Some fresh_video), AttachRef (str ''B'') (Some fresh_video),
      VideoClick [] (video_result []), PlaySettled [] Switch Resolved,
      VideoClick (str ''B'') (video_result ''B''),
      PlaySettled (str ''B'') Switch Resolved]"

text \<open>
  Two click handlers that overlap: A is clicked, and B is clicked before the
  \<open>play()\<close> promise of A has settled; then both promises resolve.
\<close>

definition overlapping_trace :: "event list" where
  "overlapping_trace =
     [AttachRef (str ''A'') (Some fresh_video), AttachRef (str ''B'') (Some fresh_video),
      VideoClick (str ''A'') (video_result ''A''),
      VideoClick (str ''B'') (video_result ''B''),
      PlaySettled (str ''A'') Switch Resolved, PlaySettled (str ''B'') Switch Resolved]"

text \<open>
  A is active and paused and is clicked again; while its \<open>play()\<close> is waiting a
  search succeeds and pauses every element; the promise is taken to resolve all the
  same; then B is clicked and plays.
\<close>

definition late_resolve_trace :: "event list" where
  "late_resolve_trace =
     click_A @ [VideoClick (str ''A'') (video_result ''A''),
                VideoClick (str ''A'') (video_result ''A''),
                SearchDone (RespOk (Inr (three_pages 1))),
                PlaySettled (str ''A'') Resume Resolved,
                VideoClick (str ''B'') (video_result ''B''),
                PlaySettled (str ''B'') Switch Resolved]"

definition gif_file :: File where
  "gif_file = \<lparr> file_name = str ''c.gif'', file_type = str ''image/gif'',
                 readAsDataURL = Inr (str ''data:image/gif;base64,R0lG'') \<rparr>"

definition unreadable_file :: File where
  "unreadable_file = \<lparr> file_name = str ''d.png'', file_type = str ''image/png'',
                        readAsDataURL = Inl JsOther \<rparr>"

text \<open>
  A batch with a file of a type that is skipped, a batch in which one conversion
  fails, a batch that succeeds, and the removal of the first image.
\<close>

definition upload_trace :: "event list" where
  "upload_trace =
     [FileSelect [png_file, gif_file], FileSelect [jpg_file, unreadable_file],
      FileSelect [jpg_file], RemoveImage 0]"

text \<open>
  A search for "cat"; while page 1 is shown the text input is changed to "dog" and an
  image is uploaded; page 2 is fetched; the image is removed; page 1 is fetched again.
\<close>

definition cat_payload :: "int \<Rightarrow> searchPayload" where
  "cat_payload n =
     \<lparr> queries = [\<lparr> q_type = QText, q_value = Some (str ''cat''),
                     embedding_model = str ''multimodal'' \<rparr>],
       page = n, page_size = 10 \<rparr>"

definition edits_on_page1 :: "event list" where
  "edits_on_page1 = [SetSearchTerm (str ''dog''), FileSelect [png_file]]"

definition edits_on_page2 :: "event list" where
  "edits_on_page2 = [RemoveAll]"

definition on_page1 :: state where
  "on_page1 =
     run (handleSearch_complete (fst (handleSearch_begin typed_cat 1))
            (RespOk (Inr (three_pages 1)))) edits_on_page1"

definition on_page2 :: state where
  "on_page2 =
     run (handlePageChange_complete (fst (handlePageChange_begin on_page1 2))
            (RespOk (Inr (three_pages 2)))) edits_on_page2"

section \<open>Invariants\<close>

text \<open>
  Playback: whatever is marked playing is the active result or the result whose click
  is waiting; the active result and the waiting one have a non-empty id and a video
  element; while a \<open>Resume\<close> click waits unpaused, its result is the active one; while
  a \<open>Switch\<close> click waits unpaused, nothing but its result is marked playing.
\<close>

definition playback_inv :: "state \<Rightarrow> pending \<Rightarrow> bool" where
  "playback_inv s p \<longleftrightarrow>
     (\<forall>k. isPlaying s k = Some True \<longrightarrow> activeVideoId s = Some k \<or> waiting p = Some k)
     \<and> (\<forall>a. activeVideoId s = Some a \<longrightarrow> a \<noteq> [] \<and> videoRefs s a \<noteq> None)
     \<and> (\<forall>k b. p = Some (k, b, False) \<longrightarrow>
           (b = Resume \<longrightarrow> activeVideoId s = Some k)
           \<and> (b = Switch \<longrightarrow> (\<forall>j. isPlaying s j = Some True \<longrightarrow> j = k)))
     \<and> (\<forall>k. waiting p = Some k \<longrightarrow> k \<noteq> [] \<and> videoRefs s k \<noteq> None)"

text \<open>Uploads: the files of the base64 entries are the selected files, in order.\<close>

definition aligned :: "state \<Rightarrow> bool" where
  "aligned s \<longleftrightarrow> map b64_file (base64Contents s) = selectedFiles s"

section \<open>Verified properties\<close>

lemmas handler_defs =
  setSearchTerm_def handleFileSelect_def removeImage_def removeAll_def
  handleSearch_begin_def handleSearch_complete_def handleSearch_catch_def
  handlePageChange_begin_def handlePageChange_complete_def handlePageChange_catch_def
  attachRef_def handleVideoClick_begin_def handleVideoClick_settle_def
  handleVideoClick_catch_def pause_previous_def
  handlePlay_def handlePause_def toggleSection_def

subsection \<open>Fields that a handler leaves alone\<close>

lemma lastSearchQueries_step:
  "\<not> is_Search e \<Longrightarrow> lastSearchQueries (step s e) = lastSearchQueries s"
  by (cases e)
    (simp_all add: handler_defs Let_def
      split: sum.splits option.splits fetch_result.splits play_outcome.splits js_thrown.splits
        click_branch.splits)

lemma lastSearchQueries_run:
  "\<forall>e \<in> set es. \<not> is_Search e \<Longrightarrow> lastSearchQueries (run s es) = lastSearchQueries s"
  unfolding run_def
  by (induction es arbitrary: s) (simp_all add: lastSearchQueries_step)

lemma lastSearchQueries_search_complete:
  "lastSearchQueries (handleSearch_complete s r) = lastSearchQueries s"
  using lastSearchQueries_step [of "SearchDone r" s] by simp

lemma lastSearchQueries_page_complete:
  "lastSearchQueries (handlePageChange_complete s r) = lastSearchQueries s"
  using lastSearchQueries_step [of "PageDone r" s] by simp

lemma search_begin_request:
  "snd (handleSearch_begin s pg) = Some r \<Longrightarrow>
   queries r = lastSearchQueries (fst (handleSearch_begin s pg))"
  by (auto simp: handleSearch_begin_def Let_def split: if_splits)

lemma page_begin_request:
  "snd (handlePageChange_begin s n) = Some r \<Longrightarrow>
   queries r = lastSearchQueries s
   \<and> lastSearchQueries (fst (handlePageChange_begin s n)) = lastSearchQueries s"
  by (auto simp: handlePageChange_begin_def split: if_splits)


subsection \<open>Disclosure state\<close>

text \<open>
  C9. For every result id, section and disclosure map, toggling the same
  (id, section) twice gives the expanded flag its original value back, and one toggle
  of an entry that is absent gives \<open>True\<close>.
\<close>

theorem toggle_twice:
  "expanded (toggle (toggle prev resultId sec) resultId sec) resultId sec
     = expanded prev resultId sec
   \<and> (prev resultId = None \<longrightarrow> expanded (toggle prev resultId sec) resultId sec = True)"
  by (cases sec) (simp_all add: expanded_def toggle_def split: option.splits)

theorem toggle_twice_witness:
  "expanded (toggle (toggle Map.empty (str ''r1'') Description) (str ''r1'') Description)
      (str ''r1'') Description
     = expanded Map.empty (str ''r1'') Description
   \<and> (Map.empty (str ''r1'') = (None :: sections option)
      \<and> expanded (toggle Map.empty (str ''r1'') Description) (str ''r1'') Description = True)"
  using toggle_twice [of Map.empty "str ''r1''" Description] by simp

subsection \<open>Search\<close>

text \<open>
  C1, as stated, at a concrete input: a search for "cat" is sent and the server answers
  with a status that is not ok and the body "boom". The error the component then holds
  is the fixed message of the \<open>catch\<close> block, which is not the body.
\<close>

theorem handleSearch_non_ok_counterexample:
  "snd (handleSearch_begin typed_cat 1) \<noteq> None
   \<and> error (handleSearch_complete (fst (handleSearch_begin typed_cat 1))
               (RespNotOk (Inr (str ''boom''))))
       = str ''An unexpected error occurred while searching''
   \<and> str ''An unexpected error occurred while searching'' \<noteq> str ''boom''"
  by (simp add: handleSearch_begin_def handleSearch_complete_def handleSearch_catch_def
      typed_cat_def setSearchTerm_def init_def trim_def isWhiteSpace_def str_def Let_def)

text \<open>
  C1, amended. For every search that receives a response that is not ok, with body text
  \<open>body\<close>: an \<open>Error\<close> whose message is \<open>body\<close> is thrown and logged to the
  console under "Search error:", the error held by the component is the fixed text
  "An unexpected error occurred while searching", the result list is cleared, the
  pagination is reset to page 1 of 0 with 0 results, and \<open>loading\<close> is false.
\<close>

theorem handleSearch_non_ok:
  "console (handleSearch_complete s (RespNotOk (Inr body)))
     = console s @ [(str ''Search error:'', JsError (str ''Error'') body)]
   \<and> error (handleSearch_complete s (RespNotOk (Inr body)))
     = str ''An unexpected error occurred while searching''
   \<and> results (handleSearch_complete s (RespNotOk (Inr body))) = []
   \<and> currentPage (handleSearch_complete s (RespNotOk (Inr body))) = 1
   \<and> totalPages (handleSearch_complete s (RespNotOk (Inr body))) = 0
   \<and> totalResults (handleSearch_complete s (RespNotOk (Inr body))) = 0
   \<and> loading (handleSearch_complete s (RespNotOk (Inr body))) = False"
  by (simp add: handleSearch_complete_def handleSearch_catch_def)

text \<open>
  C2, as stated, at a concrete input: the text input is " cat" (one leading space) and
  nothing is uploaded. The trimmed text is "cat" and not empty, and the one query sent
  has the value " cat", the input as typed, not the trimmed text.
\<close>

theorem build_queries_counterexample:
  "trim (searchTerm padded_cat) = str ''cat''
   \<and> trim (searchTerm padded_cat) \<noteq> []
   \<and> snd (handleSearch_begin padded_cat 1)
       = Some \<lparr> queries = [\<lparr> q_type = QText, q_value = Some (str '' cat''),
                              embedding_model = str ''multimodal'' \<rparr>],
                 page = 1, page_size = 10 \<rparr>
   \<and> str '' cat'' \<noteq> str ''cat''"
  by (simp add: handleSearch_begin_def build_queries_def padded_cat_def setSearchTerm_def
      init_def trim_def isWhiteSpace_def str_def pageSize_def Let_def)

text \<open>
  C2, amended. For every state whose trimmed text input is not empty, the request of a
  search carries first a text query whose value is the text input as typed (not
  trimmed), with embedding model "multimodal", and then one base64 query per uploaded
  image, in upload order, with the stored payload of that image.
\<close>

theorem handleSearch_queries:
  "trim (searchTerm s) \<noteq> [] \<Longrightarrow>
   snd (handleSearch_begin s pg)
     = Some \<lparr> queries =
                 \<lparr> q_type = QText, q_value = Some (searchTerm s),
                   embedding_model = str ''multimodal'' \<rparr>
                 # map (\<lambda>c. \<lparr> q_type = QBase64, q_value = base64 c,
                               embedding_model = str ''multimodal'' \<rparr>) (base64Contents s),
               page = pg, page_size = 10 \<rparr>"
  by (simp add: handleSearch_begin_def build_queries_def pageSize_def Let_def)

theorem handleSearch_queries_witness:
  "trim (searchTerm (handleFileSelect typed_cat [png_file, jpg_file])) \<noteq> []
   \<and> snd (handleSearch_begin (handleFileSelect typed_cat [png_file, jpg_file]) 1)
     = Some \<lparr> queries =
                 [\<lparr> q_type = QText, q_value = Some (str ''cat''),
                    embedding_model = str ''multimodal'' \<rparr>,
                  \<lparr> q_type = QBase64, q_value = Some (str ''QUJD''),
                    embedding_model = str ''multimodal'' \<rparr>,
                  \<lparr> q_type = QBase64, q_value = Some (str ''REVG''),
                    embedding_model = str ''multimodal'' \<rparr>],
               page = 1, page_size = 10 \<rparr>"
proof -
  have nonempty: "trim (searchTerm (handleFileSelect typed_cat [png_file, jpg_file])) \<noteq> []"
    by (simp add: handleFileSelect_def typed_cat_def setSearchTerm_def init_def
        validImageTypes_def png_file_def jpg_file_def fileToBase64_def trim_def
        isWhiteSpace_def str_def Let_def)
  have uploads: "base64Contents (handleFileSelect typed_cat [png_file, jpg_file])
      = [\<lparr>b64_file = png_file, base64 = Some (str ''QUJD'')\<rparr>,
         \<lparr>b64_file = jpg_file, base64 = Some (str ''REVG'')\<rparr>]"
    by (simp add: handleFileSelect_def typed_cat_def setSearchTerm_def init_def
        validImageTypes_def png_file_def jpg_file_def fileToBase64_def str_def Let_def)
  have typed: "searchTerm (handleFileSelect typed_cat [png_file, jpg_file]) = str ''cat''"
    by (simp add: handleFileSelect_def typed_cat_def setSearchTerm_def init_def
        validImageTypes_def png_file_def jpg_file_def fileToBase64_def str_def Let_def)
  show ?thesis
    using handleSearch_queries [OF nonempty, of 1] nonempty by (simp add: uploads typed)
qed

text \<open>
  C6. For every state whose trimmed text input is empty and whose list of uploaded
  images is empty, a search sends no request, sets the error to "Please enter a search
  term or upload files", and changes nothing else of the state.
\<close>

theorem empty_search_rejected:
  "trim (searchTerm s) = [] \<and> base64Contents s = [] \<Longrightarrow>
   handleSearch_begin s pg
     = (s\<lparr>error := str ''Please enter a search term or upload files''\<rparr>, None)"
  by (simp add: handleSearch_begin_def)

theorem empty_search_rejected_witness:
  "(trim (searchTerm (setSearchTerm init (str ''  ''))) = []
    \<and> base64Contents (setSearchTerm init (str ''  '')) = [])
   \<and> handleSearch_begin (setSearchTerm init (str ''  '')) 1
     = ((setSearchTerm init (str ''  ''))
          \<lparr>error := str ''Please enter a search term or upload files''\<rparr>, None)"
proof -
  have blank: "trim (searchTerm (setSearchTerm init (str ''  ''))) = []
      \<and> base64Contents (setSearchTerm init (str ''  '')) = []"
    by (simp add: setSearchTerm_def init_def trim_def isWhiteSpace_def str_def)
  show ?thesis
    using empty_search_rejected [OF blank, of 1] blank by simp
qed

text \<open>
  C3. After every search and every page change that receives an ok response whose body
  parses, no result is active and no result is marked playing: the playing map is
  empty.
\<close>

theorem playback_reset:
  "activeVideoId (handleSearch_complete s (RespOk (Inr d))) = None
   \<and> isPlaying (handleSearch_complete s (RespOk (Inr d))) = Map.empty
   \<and> activeVideoId (handlePageChange_complete s (RespOk (Inr d))) = None
   \<and> isPlaying (handlePageChange_complete s (RespOk (Inr d))) = Map.empty"
  by (simp add: handleSearch_complete_def handlePageChange_complete_def)

subsection \<open>Pagination\<close>

text \<open>
  C5. A page change to \<open>newPage\<close> sends no request and leaves the state as it is
  whenever \<open>newPage < 1\<close>, \<open>newPage > totalPages\<close>, or \<open>loading\<close> is true.
\<close>

theorem goToPage_noop:
  "newPage < 1 \<or> newPage > totalPages s \<or> loading s \<Longrightarrow>
   handlePageChange_begin s newPage = (s, None)"
  by (simp add: handlePageChange_begin_def)

theorem goToPage_noop_witness:
  "((0::int) < 1 \<or> 0 > totalPages init \<or> loading init)
   \<and> handlePageChange_begin init 0 = (init, None)"
  using goToPage_noop [of 0 init] by simp

text \<open>
  C4. A search with \<open>page = 1\<close> sends a request; then, after any events none of which
  starts a new search (edits of the text input and of the uploads among them), a page
  change to page 2 sends a request; then, after any such events again, a page change to
  page 1 sends a request. The three requests carry the same query list: the one built
  by the search.
\<close>

theorem pagination_reuses_queries:
  assumes first: "snd (handleSearch_begin s0 1) = Some r1"
    and between1: "list_all (\<lambda>e. \<not> is_Search e) es1"
    and s2: "s2 = run (handleSearch_complete (fst (handleSearch_begin s0 1)) resp1) es1"
    and second: "snd (handlePageChange_begin s2 2) = Some r2"
    and between2: "list_all (\<lambda>e. \<not> is_Search e) es2"
    and s4: "s4 = run (handlePageChange_complete (fst (handlePageChange_begin s2 2)) resp2) es2"
    and third: "snd (handlePageChange_begin s4 1) = Some r3"
  shows "queries r2 = queries r1 \<and> queries r3 = queries r1"
proof -
  have q1: "lastSearchQueries s2 = queries r1"
    using first between1 s2
    by (simp add: lastSearchQueries_run lastSearchQueries_search_complete
        search_begin_request list_all_iff)
  have q2: "queries r2 = lastSearchQueries s2"
    using page_begin_request [OF second] by simp
  have "lastSearchQueries s4 = lastSearchQueries s2"
    using between2 s4 page_begin_request [OF second]
    by (simp add: lastSearchQueries_run lastSearchQueries_page_complete list_all_iff)
  moreover have "queries r3 = lastSearchQueries s4"
    using page_begin_request [OF third] by simp
  ultimately show ?thesis
    using q1 q2 by simp
qed

theorem pagination_reuses_queries_witness:
  "snd (handleSearch_begin typed_cat 1) = Some (cat_payload 1)
   \<and> list_all (\<lambda>e. \<not> is_Search e) edits_on_page1
   \<and> searchTerm on_page1 = str ''dog''
   \<and> snd (handlePageChange_begin on_page1 2) = Some (cat_payload 2)
   \<and> list_all (\<lambda>e. \<not> is_Search e) edits_on_page2
   \<and> snd (handlePageChange_begin on_page2 1) = Some (cat_payload 1)
   \<and> queries (cat_payload 2) = queries (cat_payload 1)
   \<and> queries (cat_payload 1) = queries (cat_payload 1)"
proof -
  have first: "snd (handleSearch_begin typed_cat 1) = Some (cat_payload 1)"
    by (simp add: handleSearch_begin_def build_queries_def typed_cat_def setSearchTerm_def
        init_def cat_payload_def pageSize_def trim_def isWhiteSpace_def str_def Let_def)
  have between1: "list_all (\<lambda>e. \<not> is_Search e) edits_on_page1"
    by (simp add: edits_on_page1_def)
  have between2: "list_all (\<lambda>e. \<not> is_Search e) edits_on_page2"
    by (simp add: edits_on_page2_def)
  have typed: "searchTerm on_page1 = str ''dog''"
    by (simp add: on_page1_def run_def edits_on_page1_def handler_defs typed_cat_def
        init_def three_pages_def png_file_def validImageTypes_def fileToBase64_def
        build_queries_def trim_def isWhiteSpace_def str_def Let_def)
  have second: "snd (handlePageChange_begin on_page1 2) = Some (cat_payload 2)"
    by (simp add: on_page1_def run_def edits_on_page1_def handler_defs typed_cat_def
        init_def three_pages_def png_file_def validImageTypes_def fileToBase64_def
        build_queries_def cat_payload_def pageSize_def trim_def isWhiteSpace_def str_def
        Let_def)
  have third: "snd (handlePageChange_begin on_page2 1) = Some (cat_payload 1)"
    by (simp add: on_page2_def on_page1_def run_def edits_on_page1_def edits_on_page2_def
        handler_defs typed_cat_def
        init_def three_pages_def png_file_def validImageTypes_def fileToBase64_def
        build_queries_def cat_payload_def pageSize_def trim_def isWhiteSpace_def str_def
        Let_def)
  show ?thesis
    using pagination_reuses_queries
      [OF first between1 on_page1_def second between2 on_page2_def third]
      first between1 typed second between2 third
    by simp
qed

text \<open>
  C7, evaluated on the code. A search for "cat" succeeds with three pages, and a change
  to page 2 is refused by the server, which sets the error "An error occurred while
  fetching more results". The next page change sends its request and leaves that error
  in place, when it starts and also after it has succeeded; so does the upload of a
  valid image. Only \<open>handleSearch\<close> clears the error when it starts.
\<close>

theorem stale_error_survives:
  "error (run init failed_page_trace) = str ''An error occurred while fetching more results''
   \<and> snd (handlePageChange_begin (run init failed_page_trace) 2) = Some (cat_payload 2)
   \<and> error (fst (handlePageChange_begin (run init failed_page_trace) 2))
       = str ''An error occurred while fetching more results''
   \<and> error (handlePageChange_complete
               (fst (handlePageChange_begin (run init failed_page_trace) 2))
               (RespOk (Inr (three_pages 2))))
       = str ''An error occurred while fetching more results''
   \<and> error (handleFileSelect (run init failed_page_trace) [png_file])
       = str ''An error occurred while fetching more results''"
  by (simp add: failed_page_trace_def run_def handler_defs
        init_def three_pages_def png_file_def validImageTypes_def fileToBase64_def
        build_queries_def cat_payload_def pageSize_def trim_def isWhiteSpace_def str_def
        Let_def)

subsection \<open>Uploads\<close>

lemma promise_all_files:
  "promise_all (map (\<lambda>f. case fileToBase64 f of
                           Inl err \<Rightarrow> Inl err
                         | Inr b \<Rightarrow> Inr \<lparr>b64_file = f, base64 = b\<rparr>) fs) = Inr cs
   \<Longrightarrow> map b64_file cs = fs"
proof (induction fs arbitrary: cs)
  case Nil
  then show ?case by simp
next
  case (Cons f fs)
  then show ?case
    by (cases "fileToBase64 f") (auto split: sum.splits)
qed

text \<open>A batch in which a conversion fails adds to neither list.\<close>

lemma failed_batch_appends_nothing:
  "promise_all
     (map (\<lambda>f. case fileToBase64 f of
                  Inl err \<Rightarrow> Inl err
                | Inr b \<Rightarrow> Inr \<lparr>b64_file = f, base64 = b\<rparr>)
        (filter (\<lambda>f. file_type f \<in> set validImageTypes) files)) = Inl err
   \<Longrightarrow> selectedFiles (handleFileSelect s files) = selectedFiles s
       \<and> base64Contents (handleFileSelect s files) = base64Contents s"
  by (simp add: handleFileSelect_def Let_def)

lemma filter_not_index_map:
  "map f (filter_not_index i xs) = filter_not_index i (map f xs)"
  by (simp add: filter_not_index_def enumerate_eq_zip zip_map2 filter_map o_def split_def)

lemma aligned_handleFileSelect: "aligned s \<Longrightarrow> aligned (handleFileSelect s files)"
  by (auto simp: aligned_def handleFileSelect_def Let_def promise_all_files
      split: sum.splits)

lemma aligned_removeImage: "aligned s \<Longrightarrow> aligned (removeImage s i)"
  by (auto simp: aligned_def removeImage_def filter_not_index_map)

lemma uploads_unchanged:
  "\<not> (\<exists>files. e = FileSelect files) \<Longrightarrow> \<not> (\<exists>i. e = RemoveImage i) \<Longrightarrow> e \<noteq> RemoveAll \<Longrightarrow>
   selectedFiles (step s e) = selectedFiles s \<and> base64Contents (step s e) = base64Contents s"
  by (cases e)
    (simp_all add: handler_defs Let_def
      split: sum.splits option.splits fetch_result.splits play_outcome.splits js_thrown.splits
        click_branch.splits)

lemma aligned_step: "aligned s \<Longrightarrow> aligned (step s e)"
proof (cases e)
  case (FileSelect files)
  assume "aligned s"
  then show ?thesis using FileSelect by (simp add: aligned_handleFileSelect)
next
  case (RemoveImage i)
  assume "aligned s"
  then show ?thesis using RemoveImage by (simp add: aligned_removeImage)
next
  case RemoveAll
  then show ?thesis by (simp add: aligned_def removeAll_def)
qed (use uploads_unchanged [of e s] in \<open>auto simp: aligned_def\<close>)

lemma aligned_run: "aligned s \<Longrightarrow> aligned (run s es)"
  unfolding run_def
  by (induction es arbitrary: s) (simp_all add: aligned_step)

lemma aligned_init: "aligned init"
  by (simp add: aligned_def init_def)

text \<open>
  C10. After any sequence of events from the initial state (file selections, removals
  of one image and "Remove All" among them), the list of selected files and the list
  of base64 entries have the same length, and the file of the entry at index \<open>i\<close> is
  the selected file at index \<open>i\<close>.
\<close>

theorem uploads_aligned:
  "length (base64Contents (run init es)) = length (selectedFiles (run init es))
   \<and> (\<forall>i < length (selectedFiles (run init es)).
        b64_file (base64Contents (run init es) ! i) = selectedFiles (run init es) ! i)"
proof -
  have "map b64_file (base64Contents (run init es)) = selectedFiles (run init es)"
    using aligned_run [OF aligned_init, of es] by (simp add: aligned_def)
  then show ?thesis
    by (metis length_map nth_map)
qed

theorem uploads_aligned_witness:
  "selectedFiles (run init upload_trace) = [jpg_file]
   \<and> length (base64Contents (run init upload_trace))
       = length (selectedFiles (run init upload_trace))
   \<and> (0 < length (selectedFiles (run init upload_trace))
      \<and> b64_file (base64Contents (run init upload_trace) ! 0)
          = selectedFiles (run init upload_trace) ! 0)"
proof -
  have left: "selectedFiles (run init upload_trace) = [jpg_file]"
    by (simp add: upload_trace_def run_def handleFileSelect_def removeImage_def
        filter_not_index_def enumerate_eq_zip init_def validImageTypes_def fileToBase64_def
        png_file_def jpg_file_def gif_file_def unreadable_file_def str_def Let_def)
  show ?thesis
    using uploads_aligned [of upload_trace] left by simp
qed

subsection \<open>Playback\<close>

lemma waiting_simps:
  "waiting None = None" "waiting (Some (k, b, ab)) = Some k"
  by (simp_all add: waiting_def)


lemma playback_inv_same:
  "activeVideoId t = activeVideoId s \<Longrightarrow> isPlaying t = isPlaying s
   \<Longrightarrow> videoRefs t = videoRefs s \<Longrightarrow> playback_inv s p \<Longrightarrow> playback_inv t p"
  by (simp add: playback_inv_def)
















lemmas playback_eval =
  run_def attachRef_def handleVideoClick_begin_def handleVideoClick_settle_def
  pause_previous_def handlePlay_def handlePause_def handleSearch_complete_def pause_all_def
  init_def fresh_video_def video_result_def three_pages_def waiting_def str_def Let_def


text \<open>
  The same happens for a moment in every click that switches from A to B: the
  \<open>play\<close> event that the handler's own call of \<open>play()\<close> fires on B marks B playing
  while the handler still waits and A is still the active result. So the result whose
  click is waiting has to be excepted.
\<close>

lemma switch_marks_before_active:
  "admissible_run init None switching_trace
   \<and> waiting (pending_run init None switching_trace) = Some (str ''B'')
   \<and> activeVideoId (run init switching_trace) = Some (str ''A'')
   \<and> isPlaying (run init switching_trace) (str ''B'') = Some True"
  by (simp add: switching_trace_def click_A_def playback_eval)

text \<open>
  Each restriction on the runs is needed. The empty string is falsy, so an active
  result with that id is not paused and not unmarked when another result is clicked.
\<close>

lemma empty_id_stays_marked:
  "activeVideoId (run init empty_id_trace) = Some (str ''B'')
   \<and> isPlaying (run init empty_id_trace) [] = Some True"
  by (simp add: empty_id_trace_def playback_eval)

text \<open>
  When B is clicked while the \<open>play()\<close> promise of a click on A is waiting and both
  promises resolve, B is active and A stays marked playing.
\<close>

lemma overlapping_clicks_mark_two:
  "activeVideoId (run init overlapping_trace) = Some (str ''B'')
   \<and> isPlaying (run init overlapping_trace) (str ''A'') = Some True"
  by (simp add: overlapping_trace_def playback_eval)

text \<open>
  When the element of A fires \<open>play\<close> between the call of \<open>play()\<close> on B, which has
  paused and unmarked A, and the resolution of that promise, A is marked again and
  stays so.
\<close>

lemma stale_play_stays_marked:
  "activeVideoId (run init stale_play_trace) = Some (str ''B'')
   \<and> isPlaying (run init stale_play_trace) (str ''A'') = Some True"
  by (simp add: stale_play_trace_def click_A_def playback_eval)

text \<open>
  If a \<open>play()\<close> promise could resolve after a successful search has paused its
  element, its result would be marked playing with no result active, and would stay
  marked when another result is clicked.
\<close>

lemma late_resolve_stays_marked:
  "activeVideoId (run init late_resolve_trace) = Some (str ''B'')
   \<and> isPlaying (run init late_resolve_trace) (str ''A'') = Some True"
  by (simp add: late_resolve_trace_def click_A_def playback_eval)



end
